theory Spec2Isabelle
  imports Complex_Main "HOL-Library.Multiset" "HOL-Library.Log_Nat"
begin

section \<open>JavaScript values used by the dashboard\<close>

text \<open>
  The dashboard (\<^verbatim>\<open>frontend/src/components/Dashboard.jsx\<close>) works on the JSON document
  returned by the portfolio endpoint. Numbers are rationals. Sums, differences and the
  products of the manual-entry form are kept exact. The quotient and the product that
  \<^verbatim>\<open>Math.round\<close> receives when a percentage is computed are rounded to the nearest double
  (\<open>to_double\<close> below), as IEEE 754 arithmetic does: which way a percentage on a half
  goes depends on that rounding. A field that the source reads through \<^verbatim>\<open>x || 0\<close> may
  be absent (\<^verbatim>\<open>undefined\<close>, \<^verbatim>\<open>null\<close> or \<^verbatim>\<open>NaN\<close>); such a field is an \<^typ>\<open>'a option\<close>
  and \<open>None\<close> stands for the absent value.
\<close>

definition or0 :: "rat option \<Rightarrow> rat" where
  \<comment> \<open>\<^verbatim>\<open>x || 0\<close> on a number: an absent value and the number 0 both give 0.\<close>
  "or0 v = (case v of None \<Rightarrow> 0 | Some x \<Rightarrow> x)"

definition or0n :: "nat option \<Rightarrow> nat" where
  \<comment> \<open>\<^verbatim>\<open>x || 0\<close> on a count.\<close>
  "or0n v = (case v of None \<Rightarrow> 0 | Some n \<Rightarrow> n)"

definition or_str :: "string option \<Rightarrow> string \<Rightarrow> string" where
  \<comment> \<open>\<^verbatim>\<open>s || d\<close> on a string: an absent value and the empty string are falsy.\<close>
  "or_str v d = (case v of None \<Rightarrow> d | Some s \<Rightarrow> if s = [] then d else s)"

definition Math_round :: "rat \<Rightarrow> int" where
  \<comment> \<open>\<^verbatim>\<open>Math.round\<close>: the nearest integer, a tie going to the larger one.\<close>
  "Math_round x = \<lfloor>x + 1 / 2\<rfloor>"

definition round_half_even :: "rat \<Rightarrow> int" where
  \<comment> \<open>The nearest integer, a tie going to the even one: the rounding of IEEE 754
      arithmetic, and the tie-breaking that the specification asks of percentages.\<close>
  "round_half_even x =
     (let f = \<lfloor>x\<rfloor>; d = x - of_int f
      in if d < 1 / 2 then f else if d > 1 / 2 then f + 1 else if even f then f else f + 1)"

text \<open>
  A double has a significand of 53 bits. For \<open>x > 0\<close>, \<open>binade x\<close> is the exponent \<open>e\<close>
  with \<open>2\<^sup>5\<^sup>2 \<le> x / 2\<^sup>e < 2\<^sup>5\<^sup>3\<close>, found from the bit lengths of numerator and
  denominator; \<open>to_double x\<close> rounds \<open>x / 2\<^sup>e\<close> to an integer, half to even, and scales
  back. This is the correctly rounded result of an IEEE 754 operation whose exact result
  is \<open>x\<close>; overflow to an infinity and subnormal numbers are left out.
\<close>

definition binade :: "rat \<Rightarrow> int" where
  "binade x =
     (let (p, q) = quotient_of x; d = bitlen p - bitlen q
      in if 2 powi d \<le> x then d - 52 else d - 53)"

definition to_double :: "rat \<Rightarrow> rat" where
  "to_double x =
     (if x = 0 then 0
      else let e = binade \<bar>x\<bar>; m = round_half_even (\<bar>x\<bar> / 2 powi e)
           in sgn x * of_int m * 2 powi e)"

datatype num_error = DivisionByZero

definition js_div :: "rat \<Rightarrow> rat \<Rightarrow> num_error + rat" where
  \<comment> \<open>The double quotient \<^verbatim>\<open>a / b\<close>, with the zero divisor made visible: the source
      would produce \<^verbatim>\<open>NaN\<close> or an infinity there.\<close>
  "js_div a b = (if b = 0 then Inl DivisionByZero else Inr (to_double (a / b)))"

definition js_mul :: "rat \<Rightarrow> rat \<Rightarrow> rat" where
  \<comment> \<open>The double product \<^verbatim>\<open>a * b\<close>.\<close>
  "js_mul a b = to_double (a * b)"

fun map_result :: "('a \<Rightarrow> 'e + 'b) \<Rightarrow> 'a list \<Rightarrow> 'e + 'b list" where
  "map_result f [] = Inr []"
| "map_result f (x # xs) =
     (case f x of
        Inl e \<Rightarrow> Inl e
      | Inr y \<Rightarrow> (case map_result f xs of Inl e \<Rightarrow> Inl e | Inr ys \<Rightarrow> Inr (y # ys)))"

subsection \<open>Strings\<close>

text \<open>
  \<^verbatim>\<open>toLowerCase\<close> and \<^verbatim>\<open>toUpperCase\<close> on the ASCII letters; every other character is
  left as it is (asset-class keys are ASCII identifiers such as \<^verbatim>\<open>mutual_funds\<close>).
\<close>

definition toLowerCase_char :: "char \<Rightarrow> char" where
  "toLowerCase_char c =
     (case map_of (zip ''ABCDEFGHIJKLMNOPQRSTUVWXYZ'' ''abcdefghijklmnopqrstuvwxyz'') c of
        None \<Rightarrow> c | Some d \<Rightarrow> d)"

definition toUpperCase_char :: "char \<Rightarrow> char" where
  "toUpperCase_char c =
     (case map_of (zip ''abcdefghijklmnopqrstuvwxyz'' ''ABCDEFGHIJKLMNOPQRSTUVWXYZ'') c of
        None \<Rightarrow> c | Some d \<Rightarrow> d)"

definition toLowerCase :: "string \<Rightarrow> string" where
  "toLowerCase s = map toLowerCase_char s"

fun replace_first :: "char \<Rightarrow> char \<Rightarrow> string \<Rightarrow> string" where
  \<comment> \<open>\<^verbatim>\<open>s.replace(a, b)\<close> with a string pattern: only the first occurrence.\<close>
  "replace_first a b [] = []"
| "replace_first a b (c # cs) = (if c = a then b # cs else c # replace_first a b cs)"

subsection \<open>Objects and arrays\<close>

text \<open>
  An object used as a dictionary keeps its string keys in insertion order, and
  \<^verbatim>\<open>Object.values\<close> lists the values in that order: an association list. Assigning to
  an existing key keeps the key's position. (Keys that spell array indices would be
  listed first and keys inherited from \<^verbatim>\<open>Object.prototype\<close> would be found without
  having been set; lower-cased asset-class names are neither.)
\<close>

fun obj_set :: "(string \<times> 'v) list \<Rightarrow> string \<Rightarrow> 'v \<Rightarrow> (string \<times> 'v) list" where
  "obj_set [] k v = [(k, v)]"
| "obj_set ((k', v') # m) k v = (if k' = k then (k, v) # m else (k', v') # obj_set m k v)"

definition obj_get :: "(string \<times> 'v) list \<Rightarrow> string \<Rightarrow> 'v option" where
  "obj_get m k = map_of m k"

definition Object_values :: "(string \<times> 'v) list \<Rightarrow> 'v list" where
  "Object_values m = map snd m"

text \<open>
  \<^verbatim>\<open>Array.prototype.sort\<close> with a comparator is stable; with a comparator that orders
  the elements consistently its result is the stable insertion sort below. An element
  \<open>x\<close> goes before the first \<open>y\<close> with \<open>cmp x y \<le> 0\<close>.
\<close>

fun insert_by :: "('a \<Rightarrow> 'a \<Rightarrow> rat) \<Rightarrow> 'a \<Rightarrow> 'a list \<Rightarrow> 'a list" where
  "insert_by cmp x [] = [x]"
| "insert_by cmp x (y # ys) = (if cmp x y \<le> 0 then x # y # ys else y # insert_by cmp x ys)"

definition js_sort :: "('a \<Rightarrow> 'a \<Rightarrow> rat) \<Rightarrow> 'a list \<Rightarrow> 'a list" where
  "js_sort cmp xs = foldr (insert_by cmp) xs []"

section \<open>The portfolio document\<close>

record holding =
  scheme_name :: string
  asset_class :: string
  units :: rat
  nav :: rat
  current_value :: "rat option"
  invested_amount :: rat
  absolute_return :: rat
  percentage_return :: "rat option"
  amc :: "string option"
  isin :: string
  folio :: string
  valuation_date :: string
  source :: "string option"

record summary =
  total_value :: "rat option"
  scheme_count :: "nat option"
  folio_count :: "nat option"

record alloc_item =
  item_asset_class :: string
  item_value :: "rat option"
  item_scheme_count :: "nat option"

record alloc_entry =
  entry_asset_class :: string
  entry_value :: rat
  entry_scheme_count :: nat

record alloc_row = alloc_entry +
  percentage :: rat

record data =
  data_summary :: summary
  data_holdings :: "holding list option"
  data_asset_allocation :: "alloc_item list"

section \<open>Dashboard\<close>

definition holdings_of :: "data \<Rightarrow> holding list" where
  \<comment> \<open>The destructuring default \<^verbatim>\<open>holdings = []\<close>.\<close>
  "holdings_of d = (case data_holdings d of None \<Rightarrow> [] | Some hs \<Rightarrow> hs)"

definition manualHoldings :: "holding list \<Rightarrow> holding list" where
  "manualHoldings hs = filter (\<lambda>h. source h = Some ''manual'') hs"

definition manualTotalValue :: "holding list \<Rightarrow> rat" where
  "manualTotalValue hs = foldl (\<lambda>sum h. sum + or0 (current_value h)) 0 (manualHoldings hs)"

definition totalPortfolioValue :: "data \<Rightarrow> rat" where
  "totalPortfolioValue d = or0 (total_value (data_summary d)) + manualTotalValue (holdings_of d)"

definition totalSchemeCount :: "data \<Rightarrow> nat" where
  "totalSchemeCount d =
     or0n (scheme_count (data_summary d)) + length (manualHoldings (holdings_of d))"

subsection \<open>getCombinedAssetAllocation\<close>

definition add_backend :: "(string \<times> alloc_entry) list \<Rightarrow> alloc_item \<Rightarrow> (string \<times> alloc_entry) list" where
  \<comment> \<open>One step of \<^verbatim>\<open>asset_allocation.forEach\<close>: the entry of a key is overwritten.\<close>
  "add_backend m item =
     obj_set m (toLowerCase (item_asset_class item))
       \<lparr>entry_asset_class = item_asset_class item,
        entry_value = or0 (item_value item),
        entry_scheme_count = or0n (item_scheme_count item)\<rparr>"

definition manual_label :: "string \<Rightarrow> string" where
  \<comment> \<open>\<^verbatim>\<open>s.charAt(0).toUpperCase() + s.slice(1).replace('_', ' ')\<close>\<close>
  "manual_label s =
     (case s of [] \<Rightarrow> [] | c # cs \<Rightarrow> toUpperCase_char c # replace_first CHR ''_'' CHR '' '' cs)"

definition add_manual :: "(string \<times> alloc_entry) list \<Rightarrow> holding \<Rightarrow> (string \<times> alloc_entry) list" where
  \<comment> \<open>One step of \<^verbatim>\<open>manualHoldings.forEach\<close>: a missing key gets a fresh entry, then the
      entry of the key grows by the holding.\<close>
  "add_manual m h =
     (let key = toLowerCase (asset_class h);
          e = (case obj_get m key of
                 None \<Rightarrow> \<lparr>entry_asset_class = manual_label (asset_class h),
                          entry_value = 0, entry_scheme_count = 0\<rparr>
               | Some e \<Rightarrow> e)
      in obj_set m key
           (e\<lparr>entry_value := entry_value e + or0 (current_value h),
              entry_scheme_count := entry_scheme_count e + 1\<rparr>))"

definition allocationMap :: "alloc_item list \<Rightarrow> holding list \<Rightarrow> (string \<times> alloc_entry) list" where
  "allocationMap asset_allocation manual =
     foldl add_manual (foldl add_backend [] asset_allocation) manual"

definition allocation_total :: "alloc_entry list \<Rightarrow> rat" where
  "allocation_total es = foldl (\<lambda>sum item. sum + entry_value item) 0 es"

definition percentage_of :: "rat \<Rightarrow> rat \<Rightarrow> num_error + rat" where
  \<comment> \<open>\<^verbatim>\<open>total > 0 ? Math.round((item.value / total) * 10000) / 100 : 0\<close>. The integer that
      \<^verbatim>\<open>Math.round\<close> returns is exact; its hundredth is kept as the decimal \<open>n / 100\<close>
      that the resulting double is displayed as.\<close>
  "percentage_of tot v =
     (if tot > 0
      then (case js_div v tot of
              Inl e \<Rightarrow> Inl e
            | Inr q \<Rightarrow> Inr (of_int (Math_round (js_mul q 10000)) / 100))
      else Inr 0)"

definition with_percentage :: "rat \<Rightarrow> alloc_entry \<Rightarrow> num_error + alloc_row" where
  \<comment> \<open>\<^verbatim>\<open>{ ...item, percentage: ... }\<close>\<close>
  "with_percentage tot item =
     (case percentage_of tot (entry_value item) of
        Inl e \<Rightarrow> Inl e
      | Inr p \<Rightarrow> Inr \<lparr>entry_asset_class = entry_asset_class item,
                      entry_value = entry_value item,
                      entry_scheme_count = entry_scheme_count item,
                      percentage = p\<rparr>)"

definition by_value_desc :: "alloc_row \<Rightarrow> alloc_row \<Rightarrow> rat" where
  \<comment> \<open>The comparator \<^verbatim>\<open>(a, b) => b.value - a.value\<close>.\<close>
  "by_value_desc a b = entry_value b - entry_value a"

definition getCombinedAssetAllocation ::
  "alloc_item list \<Rightarrow> holding list \<Rightarrow> num_error + alloc_row list" where
  "getCombinedAssetAllocation asset_allocation manual =
     (let es = Object_values (allocationMap asset_allocation manual);
          tot = allocation_total es
      in case map_result (with_percentage tot) es of
           Inl e \<Rightarrow> Inl e
         | Inr rows \<Rightarrow> Inr (js_sort by_value_desc (filter (\<lambda>item. entry_value item > 0) rows)))"

definition combinedAssetAllocation :: "data \<Rightarrow> num_error + alloc_row list" where
  \<comment> \<open>\<^verbatim>\<open>const combinedAssetAllocation = getCombinedAssetAllocation()\<close>: the closure
      reads \<^verbatim>\<open>asset_allocation\<close> and \<^verbatim>\<open>manualHoldings\<close> of the component.\<close>
  "combinedAssetAllocation d =
     getCombinedAssetAllocation (data_asset_allocation d) (manualHoldings (holdings_of d))"

definition hundredths :: "rat \<Rightarrow> rat \<Rightarrow> int" where
  \<comment> \<open>The integer that \<^verbatim>\<open>Math.round((item.value / total) * 10000)\<close> returns.\<close>
  "hundredths tot v = Math_round (to_double (to_double (v / tot) * 10000))"

definition row_of :: "rat \<Rightarrow> alloc_entry \<Rightarrow> alloc_row" where
  \<comment> \<open>The row that the \<^verbatim>\<open>map\<close> stage builds for an entry, written without the
      error type; \<open>with_percentage_Inr\<close> below shows that the stage computes it.\<close>
  "row_of tot item =
     \<lparr>entry_asset_class = entry_asset_class item,
      entry_value = entry_value item,
      entry_scheme_count = entry_scheme_count item,
      percentage =
        (if tot > 0
         then of_int (Math_round (to_double (to_double (entry_value item / tot) * 10000))) / 100
         else 0)\<rparr>"

section \<open>OverviewTab\<close>




definition by_current_value_desc :: "holding \<Rightarrow> holding \<Rightarrow> rat" where
  \<comment> \<open>The comparator \<^verbatim>\<open>(a, b) => (b.current_value || 0) - (a.current_value || 0)\<close>.\<close>
  "by_current_value_desc a b = or0 (current_value b) - or0 (current_value a)"

definition Overview_allHoldings :: "holding list \<Rightarrow> holding list" where
  \<comment> \<open>\<^verbatim>\<open>[...holdings].sort(...)\<close>: a sorted copy.\<close>
  "Overview_allHoldings hs = js_sort by_current_value_desc hs"

definition top5 :: "holding list \<Rightarrow> holding list" where
  \<comment> \<open>\<^verbatim>\<open>allHoldings.slice(0, 5)\<close>, the rows of the Top 5 card.\<close>
  "top5 hs = take 5 (Overview_allHoldings hs)"

definition amc_label :: "holding \<Rightarrow> string" where
  \<comment> \<open>\<^verbatim>\<open>{holding.amc || 'Manual'}\<close>, as the holdings table and the Top 5 card render it.\<close>
  "amc_label h = or_str (amc h) ''Manual''"

section \<open>HoldingsTab\<close>







section \<open>ManualEntryModal\<close>

record formData =
  fd_scheme_name :: string
  fd_asset_class :: string
  fd_units :: string
  fd_purchase_nav :: string
  fd_current_nav :: string
  fd_amc :: string

text \<open>
  \<^verbatim>\<open>handleSubmit\<close> returns at once while a submission is in flight; otherwise it passes
  one holding to \<^verbatim>\<open>onAdd\<close>, which posts it. The result is the holding sent, if any.
  The built-in \<^verbatim>\<open>parseFloat\<close> (\<open>None\<close> for \<^verbatim>\<open>NaN\<close>) and the current date are
  parameters. The division is evaluated only on the branch \<^verbatim>\<open>invested > 0\<close>.
\<close>

definition handleSubmit ::
  "(string \<Rightarrow> rat option) \<Rightarrow> string \<Rightarrow> bool \<Rightarrow> formData \<Rightarrow> holding option" where
  "handleSubmit parseFloat today isSubmitting fd =
     (if isSubmitting then None
      else
        let units = or0 (parseFloat (fd_units fd));
            purchaseNav = or0 (parseFloat (fd_purchase_nav fd));
            currentNav = or0 (parseFloat (fd_current_nav fd));
            invested = units * purchaseNav;
            currentValue = units * currentNav;
            absoluteReturn = currentValue - invested;
            pctReturn = (if invested > 0 then (absoluteReturn / invested) * 100 else 0)
        in Some \<lparr>scheme_name = fd_scheme_name fd,
                 asset_class = fd_asset_class fd,
                 units = units,
                 nav = currentNav,
                 current_value = Some currentValue,
                 invested_amount = invested,
                 absolute_return = absoluteReturn,
                 percentage_return = Some pctReturn,
                 amc = Some (or_str (Some (fd_amc fd)) ''Manual''),
                 isin = [],
                 folio = [],
                 valuation_date = today,
                 source = None\<rparr>)"

section \<open>The analytics summary and the rounding rule of the specification\<close>

definition spec_summary :: "holding list \<Rightarrow> summary" where
  \<comment> \<open>Modelled from the spec: the Analytics Engine that computes \<^verbatim>\<open>summary\<close> runs on the
      server and is not among the frontend sources. \<^verbatim>\<open>total_value\<close> is the sum of
      current_value, \<^verbatim>\<open>scheme_count\<close> the count of holdings, \<^verbatim>\<open>folio_count\<close> the count of
      distinct non-empty folio values, over the merged holding sequence.\<close>
  "spec_summary hs =
     \<lparr>total_value = Some (sum_list (map (\<lambda>h. or0 (current_value h)) hs)),
      scheme_count = Some (length hs),
      folio_count = Some (length (remdups (filter (\<lambda>f. f \<noteq> []) (map folio hs))))\<rparr>"

definition portfolio_view :: "holding list \<Rightarrow> alloc_item list \<Rightarrow> data" where
  \<comment> \<open>Modelled from the spec: the Read interface returns the merged holdings together
      with the summary computed from them.\<close>
  "portfolio_view hs aa =
     \<lparr>data_summary = spec_summary hs, data_holdings = Some hs, data_asset_allocation = aa\<rparr>"


section \<open>Source Deduplicator\<close>

text \<open>
  The server side of the upload is not among the frontend sources (\<^verbatim>\<open>handleUpload\<close>
  only posts the file), so the deduplicating ingest is modelled from the specification.
\<close>

datatype statement_format = nsdl_cas | vested_us

record statement_source =
  source_id :: string
  format :: statement_format
  uploaded_at :: nat
  src_holdings :: "holding list"

record portfolio =
  sources :: "statement_source list"
  manual_holdings :: "(string \<times> holding) list"

datatype ingest_result =
  Updated portfolio | DuplicateUpload portfolio | UnparseableStatement

definition has_source :: "portfolio \<Rightarrow> string \<Rightarrow> bool" where
  "has_source P sid = (sid \<in> set (map source_id (sources P)))"

definition ingest ::
  "(string \<Rightarrow> string) \<Rightarrow> (string \<Rightarrow> (statement_format \<times> holding list) option) \<Rightarrow>
     nat \<Rightarrow> string \<Rightarrow> portfolio \<Rightarrow> ingest_result" where
  \<comment> \<open>Modelled from the spec: the Source Deduplicator of section 4.2. The content
      fingerprint and the Normalizer (\<open>None\<close> when it finds no usable row) are parameters;
      \<open>raw\<close> is the uploaded byte string. A known fingerprint makes the upload a no-op
      that returns the existing portfolio without normalizing; otherwise the Normalizer
      runs and a new StatementSource is added.\<close>
  "ingest fingerprint normalizer now raw P =
     (let sid = fingerprint raw
      in if has_source P sid then DuplicateUpload P
         else (case normalizer raw of
                 None \<Rightarrow> UnparseableStatement
               | Some (fmt, hs) \<Rightarrow>
                   Updated (P\<lparr>sources := sources P @
                     [\<lparr>source_id = sid, format = fmt, uploaded_at = now, src_holdings = hs\<rparr>]\<rparr>)))"

definition upload ::
  "(string \<Rightarrow> string) \<Rightarrow> (string \<Rightarrow> (statement_format \<times> holding list) option) \<Rightarrow>
     nat \<Rightarrow> string \<Rightarrow> portfolio \<Rightarrow> portfolio" where
  \<comment> \<open>Modelled from the spec: the portfolio persisted after an ingest; an error leaves
      the portfolio as it was (section 7).\<close>
  "upload fingerprint normalizer now raw P =
     (case ingest fingerprint normalizer now raw P of
        Updated P' \<Rightarrow> P'
      | DuplicateUpload P' \<Rightarrow> P'
      | UnparseableStatement \<Rightarrow> P)"

definition statement_holdings :: "portfolio \<Rightarrow> holding list" where
  \<comment> \<open>Every holding held by some StatementSource of the portfolio, in upload order.\<close>
  "statement_holdings P = concat (map src_holdings (sources P))"

section \<open>Example inputs\<close>

definition bitcoin_form :: formData where
  "bitcoin_form =
     \<lparr>fd_scheme_name = ''Bitcoin'', fd_asset_class = ''crypto'', fd_units = ''0.5'',
      fd_purchase_nav = ''30000'', fd_current_nav = ''60000'', fd_amc = []\<rparr>"

definition parse_example :: "string \<Rightarrow> rat option" where
  \<comment> \<open>\<^verbatim>\<open>parseFloat\<close> on the strings of the examples.\<close>
  "parse_example s =
     (if s = ''0.5'' then Some (1 / 2)
      else if s = ''30000'' then Some 30000
      else if s = ''60000'' then Some 60000
      else None)"

definition bitcoin :: holding where
  \<comment> \<open>The manual Bitcoin entry as the server returns it, marked \<^verbatim>\<open>source: "manual"\<close>.\<close>
  "bitcoin =
     \<lparr>scheme_name = ''Bitcoin'', asset_class = ''crypto'', units = 1 / 2, nav = 60000,
      current_value = Some 30000, invested_amount = 15000, absolute_return = 15000,
      percentage_return = Some 100, amc = Some ''Manual'', isin = [], folio = [],
      valuation_date = ''2026-01-01'', source = Some ''manual''\<rparr>"

definition stmt_holding :: "string \<Rightarrow> string \<Rightarrow> rat option \<Rightarrow> holding" where
  "stmt_holding name cls v =
     \<lparr>scheme_name = name, asset_class = cls, units = 1, nav = or0 v,
      current_value = v, invested_amount = 0, absolute_return = or0 v,
      percentage_return = Some 0, amc = None, isin = [], folio = [],
      valuation_date = ''2026-01-01'', source = Some ''statement''\<rparr>"

definition manual_holding :: "string \<Rightarrow> string \<Rightarrow> rat option \<Rightarrow> holding" where
  "manual_holding name cls v = (stmt_holding name cls v)\<lparr>source := Some ''manual''\<rparr>"

definition example_allocation :: "alloc_item list" where
  "example_allocation =
     [\<lparr>item_asset_class = ''Equity'', item_value = Some 31, item_scheme_count = Some 2\<rparr>,
      \<lparr>item_asset_class = ''Debt'', item_value = Some 0, item_scheme_count = Some 1\<rparr>]"

definition example_manual :: "holding list" where
  "example_manual = [manual_holding ''Coin'' ''crypto'' (Some 1)]"

definition short_allocation :: "alloc_item list" where
  "short_allocation =
     [\<lparr>item_asset_class = ''Equity'', item_value = Some 200, item_scheme_count = Some 1\<rparr>,
      \<lparr>item_asset_class = ''Margin'', item_value = Some (- 100), item_scheme_count = Some 1\<rparr>]"

definition zero_allocation :: "alloc_item list" where
  "zero_allocation =
     [\<lparr>item_asset_class = ''Equity'', item_value = Some 0, item_scheme_count = Some 2\<rparr>]"

definition zero_manual :: "holding list" where
  "zero_manual = [manual_holding ''Till'' ''cash'' None]"

definition sample_holdings :: "holding list" where
  "sample_holdings =
     [stmt_holding ''A'' ''equity'' (Some 10),
      stmt_holding ''B'' ''other'' None,
      manual_holding ''C'' ''crypto'' (Some 30),
      stmt_holding ''D'' ''mutual_funds'' (Some 20),
      stmt_holding ''E'' ''debt'' (Some 5),
      stmt_holding ''F'' ''gold'' (Some 40)]"

definition hdfc :: holding where
  "hdfc =
     \<lparr>scheme_name = ''HDFC Bank'', asset_class = ''equity'', units = 50, nav = 162075 / 100,
      current_value = Some (8103750 / 100), invested_amount = 72525, absolute_return = 851250 / 100,
      percentage_return = Some (1172 / 100), amc = Some ''Zerodha'', isin = ''INE040A01034'',
      folio = ''12345678'', valuation_date = ''2026-01-01'', source = Some ''statement''\<rparr>"

definition example_fingerprint :: "string \<Rightarrow> string" where
  "example_fingerprint raw = ''sha:'' @ raw"

definition example_normalizer :: "string \<Rightarrow> (statement_format \<times> holding list) option" where
  "example_normalizer raw = (if raw = [] then None else Some (nsdl_cas, [hdfc]))"

definition statement_only_view :: data where
  \<comment> \<open>A document whose summary covers the statement holding alone, while the holdings
      list also carries the manual entry.\<close>
  "statement_only_view =
     \<lparr>data_summary =
        \<lparr>total_value = Some (8103750 / 100), scheme_count = Some 1, folio_count = Some 1\<rparr>,
      data_holdings = Some [hdfc, bitcoin],
      data_asset_allocation = []\<rparr>"



definition empty_portfolio :: portfolio where
  "empty_portfolio = \<lparr>sources = [], manual_holdings = []\<rparr>"

section \<open>Properties\<close>

subsection \<open>Rounding to a double\<close>

lemma round_half_even_bounds: "\<bar>of_int (round_half_even y) - y\<bar> \<le> 1 / 2"
proof -
  have "of_int \<lfloor>y\<rfloor> \<le> y \<and> y < of_int \<lfloor>y\<rfloor> + 1"
    using floor_correct [of y] by simp
  then show ?thesis
    by (auto simp add: round_half_even_def Let_def)
qed

lemma binade_lower:
  assumes "x > 0"
  shows "2 powi (binade x) * 2 ^ 52 \<le> x"
proof -
  obtain p q where pq: "quotient_of x = (p, q)" by (cases "quotient_of x")
  then have q: "q > 0" by (rule quotient_of_denom_pos)
  have x: "x = of_int p / of_int q" using pq by (rule quotient_of_div)
  with assms q have p: "p > 0" by (simp add: zero_less_divide_iff)
  let ?d = "bitlen p - bitlen q"
  show ?thesis
  proof (cases "2 powi ?d \<le> x")
    case True
    have "(2::rat) powi (?d - 52) * 2 ^ 52 = 2 powi ?d"
      by (simp add: power_int_diff)
    with True show ?thesis by (simp add: binade_def pq)
  next
    case False
    have bp: "(2::int) ^ nat (bitlen p - 1) \<le> p" using bitlen_bounds [OF p] by simp
    have bq: "q < (2::int) ^ nat (bitlen q)" using bitlen_bounds [OF q] by simp
    have p1: "bitlen p - 1 \<ge> 0" using p by (simp add: bitlen_alt_def)
    have q1: "bitlen q \<ge> 0" by (rule bitlen_nonneg)
    have "(2::rat) powi (bitlen p - 1) = 2 ^ nat (bitlen p - 1)"
      using p1 by (simp add: power_int_def)
    also have "\<dots> = of_int (2 ^ nat (bitlen p - 1))" by simp
    also have "\<dots> \<le> of_int p" using bp by (simp only: of_int_le_iff)
    finally have a: "(2::rat) powi (bitlen p - 1) \<le> of_int p" .
    have "(of_int q :: rat) \<le> of_int (2 ^ nat (bitlen q))"
      using bq by (simp only: of_int_le_iff)
    also have "\<dots> = 2 ^ nat (bitlen q)" by simp
    also have "\<dots> = (2::rat) powi (bitlen q)" using q1 by (simp add: power_int_def)
    finally have b: "(of_int q :: rat) \<le> 2 powi (bitlen q)" .
    have qpos: "(0::rat) < of_int q" using q by simp
    have "(2::rat) powi (?d - 1) = 2 powi (bitlen p - 1) / 2 powi (bitlen q)"
      by (simp add: power_int_diff)
    also have "\<dots> \<le> of_int p / 2 powi (bitlen q)"
      using a by (simp add: divide_right_mono)
    also have "\<dots> \<le> of_int p / of_int q"
      using b qpos p by (simp add: divide_left_mono)
    finally have "(2::rat) powi (?d - 1) \<le> x" by (simp only: x)
    moreover have "(2::rat) powi (?d - 53) * 2 ^ 52 = 2 powi (?d - 1)"
      by (simp add: power_int_diff)
    ultimately show ?thesis using False by (simp add: binade_def pq)
  qed
qed

lemma to_double_error: "\<bar>to_double x - x\<bar> \<le> \<bar>x\<bar> / 2 ^ 53"
proof (cases "x = 0")
  case True
  then show ?thesis by (simp add: to_double_def)
next
  case False
  let ?a = "\<bar>x\<bar>"
  let ?s = "(2::rat) powi (binade ?a)"
  let ?m = "round_half_even (?a / ?s)"
  from False have a: "?a > 0" by simp
  have s: "?s > 0" by simp
  have low: "?s * 2 ^ 52 \<le> ?a" using binade_lower [OF a] .
  have td: "to_double x = sgn x * of_int ?m * ?s"
    using False by (simp add: to_double_def Let_def)
  have xx: "x = sgn x * (?a / ?s) * ?s" using s by (simp add: sgn_mult_abs)
  have "to_double x - x = sgn x * (of_int ?m - ?a / ?s) * ?s"
    by (subst xx, subst td) (simp add: algebra_simps)
  then have "\<bar>to_double x - x\<bar> = \<bar>of_int ?m - ?a / ?s\<bar> * ?s"
    using False s by (simp add: abs_mult abs_sgn_eq)
  also have "\<dots> \<le> (1 / 2) * ?s"
    using round_half_even_bounds [of "?a / ?s"] s by (simp add: mult_right_mono)
  also have "\<dots> \<le> ?a / 2 ^ 53"
    using low by simp
  finally show ?thesis .
qed

lemma double_product_error:
  "\<bar>to_double (to_double q * 10000) - q * 10000\<bar> \<le> 3 * \<bar>q * 10000\<bar> / 2 ^ 53"
proof -
  define u :: rat where "u = 1 / 2 ^ 53"
  define q' where "q' = to_double q"
  define y where "y = q' * 10000"
  define x where "x = q * 10000"
  define z where "z = to_double y"
  have u0: "0 \<le> u" and u1: "u \<le> 1" by (simp_all add: u_def)
  have e1: "\<bar>q' - q\<bar> \<le> \<bar>q\<bar> * u"
    using to_double_error [of q] by (simp add: u_def q'_def)
  have e2: "\<bar>z - y\<bar> \<le> \<bar>y\<bar> * u"
    using to_double_error [of y] by (simp add: u_def z_def)
  have "y - x = (q' - q) * 10000"
    by (simp only: y_def x_def left_diff_distrib)
  then have "\<bar>y - x\<bar> = \<bar>q' - q\<bar> * 10000"
    by (simp only: abs_mult abs_numeral)
  also have "\<dots> \<le> (\<bar>q\<bar> * u) * 10000"
    using e1 by (rule mult_right_mono) simp
  also have "\<dots> = \<bar>x\<bar> * u" by (simp add: x_def abs_mult)
  finally have yx: "\<bar>y - x\<bar> \<le> \<bar>x\<bar> * u" .
  have "\<bar>x\<bar> * u \<le> \<bar>x\<bar> * 1" using u1 by (rule mult_left_mono) simp
  with yx have ay: "\<bar>y\<bar> \<le> 2 * \<bar>x\<bar>" by linarith
  have "\<bar>y\<bar> * u \<le> (2 * \<bar>x\<bar>) * u" using ay u0 by (rule mult_right_mono)
  with e2 have e3: "\<bar>z - y\<bar> \<le> 2 * (\<bar>x\<bar> * u)" by linarith
  have "\<bar>z - x\<bar> \<le> 3 * (\<bar>x\<bar> * u)" using e3 yx by linarith
  then show ?thesis
    unfolding z_def y_def x_def q'_def u_def by (simp only: times_divide_eq_right mult_1_right)
qed

lemma Math_round_bounds:
  "of_int (Math_round x) - 1 / 2 \<le> x \<and> x < of_int (Math_round x) + 1 / 2"
proof -
  have "of_int \<lfloor>x + 1 / 2\<rfloor> \<le> x + 1 / 2 \<and> x + 1 / 2 < of_int \<lfloor>x + 1 / 2\<rfloor> + 1"
    using floor_correct [of "x + 1 / 2"] by simp
  then show ?thesis unfolding Math_round_def by linarith
qed

lemma rounded_product_error:
  "\<bar>of_int (Math_round (to_double (to_double q * 10000))) - q * 10000\<bar>
     \<le> 1 / 2 + 3 * \<bar>q * 10000\<bar> / 2 ^ 53"
proof -
  define x' where "x' = to_double (to_double q * 10000)"
  define eps where "eps = 3 * \<bar>q * 10000\<bar> / 2 ^ 53"
  have "\<bar>x' - q * 10000\<bar> \<le> eps"
    unfolding x'_def eps_def by (rule double_product_error)
  moreover have "of_int (Math_round x') - 1 / 2 \<le> x' \<and> x' < of_int (Math_round x') + 1 / 2"
    by (rule Math_round_bounds)
  ultimately have "\<bar>of_int (Math_round x') - q * 10000\<bar> \<le> 1 / 2 + eps" by linarith
  then show ?thesis unfolding x'_def eps_def .
qed


subsection \<open>The stages of getCombinedAssetAllocation\<close>

lemma map_result_Inr:
  "(\<And>x. x \<in> set xs \<Longrightarrow> f x = Inr (g x)) \<Longrightarrow> map_result f xs = Inr (map g xs)"
  by (induction xs) simp_all

lemma percentage_of_Inr:
  "percentage_of tot v =
     Inr (if tot > 0
          then of_int (Math_round (to_double (to_double (v / tot) * 10000))) / 100 else 0)"
  by (simp add: percentage_of_def js_div_def js_mul_def)

lemma with_percentage_Inr: "with_percentage tot item = Inr (row_of tot item)"
  by (simp add: with_percentage_def percentage_of_Inr row_of_def)

lemma getCombinedAssetAllocation_Inr:
  "getCombinedAssetAllocation aa mh =
     Inr (js_sort by_value_desc
           (filter (\<lambda>item. entry_value item > 0)
              (map (row_of (allocation_total (Object_values (allocationMap aa mh))))
                 (Object_values (allocationMap aa mh)))))"
  by (simp add: getCombinedAssetAllocation_def Let_def map_result_Inr [where g = "row_of _"] with_percentage_Inr)

lemma set_insert_by: "set (insert_by cmp x xs) = insert x (set xs)"
  by (induction xs) auto

lemma set_js_sort: "set (js_sort cmp xs) = set xs"
  by (induction xs) (simp_all add: js_sort_def set_insert_by)

lemma mset_insert_by: "mset (insert_by cmp x xs) = add_mset x (mset xs)"
  by (induction xs) auto

lemma mset_js_sort: "mset (js_sort cmp xs) = mset xs"
  by (induction xs) (simp_all add: js_sort_def mset_insert_by)

lemma sorted_insert_by:
  assumes "\<And>a b. cmp a b = key b - key a"
  shows "sorted_wrt (\<lambda>a b. key a \<ge> key b) xs \<Longrightarrow> sorted_wrt (\<lambda>a b. key a \<ge> key b) (insert_by cmp x xs)"
proof (induction xs)
  case Nil
  then show ?case by simp
next
  case (Cons y ys)
  show ?case
  proof (cases "cmp x y \<le> 0")
    case True
    then have "key y \<le> key x" by (simp add: assms)
    with Cons.prems True show ?thesis by (auto intro: order_trans)
  next
    case False
    then have "key x \<le> key y" by (simp add: assms)
    with Cons False show ?thesis by (auto simp: set_insert_by)
  qed
qed

lemma sorted_js_sort:
  assumes "\<And>a b. cmp a b = key b - key a"
  shows "sorted_wrt (\<lambda>a b. (key a :: rat) \<ge> key b) (js_sort cmp xs)"
proof (induction xs)
  case Nil
  show ?case by (simp add: js_sort_def)
next
  case (Cons x xs)
  then show ?case
    using sorted_insert_by [OF assms, where xs = "js_sort cmp xs" and x = x]
    by (simp add: js_sort_def)
qed

lemma entry_value_row_of [simp]: "entry_value (row_of tot e) = entry_value e"
  by (simp add: row_of_def)

lemma example_allocationMap:
  "allocationMap example_allocation example_manual =
     [(''equity'', \<lparr>entry_asset_class = ''Equity'', entry_value = 31, entry_scheme_count = 2\<rparr>),
      (''debt'', \<lparr>entry_asset_class = ''Debt'', entry_value = 0, entry_scheme_count = 1\<rparr>),
      (''crypto'', \<lparr>entry_asset_class = ''Crypto'', entry_value = 1, entry_scheme_count = 1\<rparr>)]"
  by (simp add: allocationMap_def example_allocation_def example_manual_def add_backend_def
      add_manual_def manual_holding_def stmt_holding_def toLowerCase_def toLowerCase_char_def
      toUpperCase_char_def manual_label_def obj_get_def or0_def or0n_def)

lemma rounded_examples:
  "Math_round (to_double (to_double (31 / 32) * 10000)) = 9688"
  "Math_round (to_double (to_double (1 / 32) * 10000)) = 313"
  "Math_round (to_double (to_double (743 / 800) * 10000)) = 9288"
  "Math_round (to_double (to_double (57 / 800) * 10000)) = 712"
  "Math_round (to_double (to_double 2 * 10000)) = 20000"
  "Math_round (to_double (to_double (3 / 4) * 10000)) = 7500"
  "Math_round (to_double (to_double (1 / 4) * 10000)) = 2500"
  by code_simp+

lemma example_result:
  "getCombinedAssetAllocation example_allocation example_manual =
     Inr [\<lparr>entry_asset_class = ''Equity'', entry_value = 31, entry_scheme_count = 2,
            percentage = 9688 / 100\<rparr>,
          \<lparr>entry_asset_class = ''Crypto'', entry_value = 1, entry_scheme_count = 1,
            percentage = 313 / 100\<rparr>]"
  by (simp add: getCombinedAssetAllocation_Inr example_allocationMap Object_values_def
      allocation_total_def row_of_def rounded_examples js_sort_def by_value_desc_def)

lemma rows_project:
  "map (\<lambda>r. (entry_asset_class r, entry_value r, entry_scheme_count r))
     (filter (\<lambda>item. entry_value item > 0) (map (row_of t) es))
   = map (\<lambda>e. (entry_asset_class e, entry_value e, entry_scheme_count e))
       (filter (\<lambda>e. entry_value e > 0) es)"
  by (induction es) (simp_all add: row_of_def)

text \<open>
  Claim C10. Whatever the input, getCombinedAssetAllocation returns a table (it never
  fails); every entry of the table has a value strictly greater than 0; the entries are
  in non-increasing order of value; and the table holds exactly the asset classes of the
  combined map whose summed value is positive, each once: the classes whose value is 0
  or negative are left out and nothing else is.
\<close>

theorem table_positive_sorted:
  "\<exists>rs. getCombinedAssetAllocation aa mh = Inr rs
      \<and> (\<forall>r \<in> set rs. entry_value r > 0)
      \<and> sorted_wrt (\<lambda>a b. entry_value a \<ge> entry_value b) rs
      \<and> mset (map (\<lambda>r. (entry_asset_class r, entry_value r, entry_scheme_count r)) rs)
          = mset (map (\<lambda>e. (entry_asset_class e, entry_value e, entry_scheme_count e))
                   (filter (\<lambda>e. entry_value e > 0) (Object_values (allocationMap aa mh))))"
proof -
  let ?es = "Object_values (allocationMap aa mh)"
  let ?rows = "filter (\<lambda>item. entry_value item > 0) (map (row_of (allocation_total ?es)) ?es)"
  let ?rs = "js_sort by_value_desc ?rows"
  have 1: "getCombinedAssetAllocation aa mh = Inr ?rs"
    by (rule getCombinedAssetAllocation_Inr)
  have 2: "\<forall>r \<in> set ?rs. entry_value r > 0"
    by (simp add: set_js_sort)
  have 3: "sorted_wrt (\<lambda>a b. entry_value a \<ge> entry_value b) ?rs"
    by (rule sorted_js_sort) (simp add: by_value_desc_def)
  have "mset (map (\<lambda>r. (entry_asset_class r, entry_value r, entry_scheme_count r)) ?rs)
      = image_mset (\<lambda>r. (entry_asset_class r, entry_value r, entry_scheme_count r)) (mset ?rows)"
    by (simp add: mset_js_sort)
  also have "\<dots> = mset (map (\<lambda>r. (entry_asset_class r, entry_value r, entry_scheme_count r)) ?rows)"
    by simp
  also have "map (\<lambda>r. (entry_asset_class r, entry_value r, entry_scheme_count r)) ?rows
      = map (\<lambda>e. (entry_asset_class e, entry_value e, entry_scheme_count e))
          (filter (\<lambda>e. entry_value e > 0) ?es)"
    by (rule rows_project)
  finally have 4: "mset (map (\<lambda>r. (entry_asset_class r, entry_value r, entry_scheme_count r)) ?rs)
      = mset (map (\<lambda>e. (entry_asset_class e, entry_value e, entry_scheme_count e))
          (filter (\<lambda>e. entry_value e > 0) ?es))" .
  from 1 2 3 4 show ?thesis by blast
qed

theorem table_positive_sorted_witness:
  "getCombinedAssetAllocation example_allocation example_manual =
     Inr [\<lparr>entry_asset_class = ''Equity'', entry_value = 31, entry_scheme_count = 2,
            percentage = 9688 / 100\<rparr>,
          \<lparr>entry_asset_class = ''Crypto'', entry_value = 1, entry_scheme_count = 1,
            percentage = 313 / 100\<rparr>]
   \<and> (\<exists>rs. getCombinedAssetAllocation example_allocation example_manual = Inr rs
      \<and> (\<forall>r \<in> set rs. entry_value r > 0)
      \<and> sorted_wrt (\<lambda>a b. entry_value a \<ge> entry_value b) rs)"
  using table_positive_sorted [of example_allocation example_manual]
  by (auto simp add: example_result)

subsection \<open>Sums and rounded shares\<close>

lemma foldl_add_sum_list:
  "foldl (\<lambda>s x. s + f x) a xs = a + sum_list (map f xs)" for a :: rat
  by (induction xs arbitrary: a) simp_all

lemma allocation_total_sum_list: "allocation_total es = sum_list (map entry_value es)"
  by (simp add: allocation_total_def foldl_add_sum_list)

lemma percentage_row_of_pos:
  "tot > 0 \<Longrightarrow> percentage (row_of tot e) = of_int (hundredths tot (entry_value e)) / 100"
  by (simp add: row_of_def hundredths_def)

lemma percentage_row_of_nonpos: "tot \<le> 0 \<Longrightarrow> percentage (row_of tot e) = 0"
  by (simp add: row_of_def)

lemma hundredths_error:
  "\<bar>of_int (hundredths tot v) - v / tot * 10000\<bar> \<le> 1 / 2 + 3 * \<bar>v / tot * 10000\<bar> / 2 ^ 53"
  unfolding hundredths_def by (rule rounded_product_error)

lemma positive_rows_percentages:
  assumes "tot > 0"
  shows "sum_list (map percentage (filter (\<lambda>r. entry_value r > 0) (map (row_of tot) es)))
         = of_int (sum_list (map (\<lambda>e. hundredths tot (entry_value e))
                      (filter (\<lambda>e. entry_value e > 0) es))) / 100"
  using assms by (induction es) (simp_all add: percentage_row_of_pos add_divide_distrib)

lemma length_positive_rows:
  "length (filter (\<lambda>r. entry_value r > 0) (map (row_of tot) es))
     = length (filter (\<lambda>e. entry_value e > 0) es)"
  by (induction es) simp_all

lemma positive_rows_error:
  assumes "tot > 0"
  shows "\<bar>of_int (sum_list (map (\<lambda>e. hundredths tot (entry_value e))
                 (filter (\<lambda>e. entry_value e > 0) es)))
          - sum_list (map entry_value (filter (\<lambda>e. entry_value e > 0) es)) / tot * 10000\<bar>
         \<le> of_nat (length (filter (\<lambda>e. entry_value e > 0) es)) / 2
           + 3 * (sum_list (map entry_value (filter (\<lambda>e. entry_value e > 0) es)) / tot * 10000)
               / 2 ^ 53"
proof (induction es)
  case Nil
  show ?case by simp
next
  case (Cons e es)
  define N :: int where
    "N = sum_list (map (\<lambda>e. hundredths tot (entry_value e)) (filter (\<lambda>e. entry_value e > 0) es))"
  define V where "V = sum_list (map entry_value (filter (\<lambda>e. entry_value e > 0) es)) / tot * 10000"
  define m where "m = length (filter (\<lambda>e. entry_value e > 0) es)"
  define c :: rat where "c = 2 ^ 53"
  have IH: "\<bar>of_int N - V\<bar> \<le> of_nat m / 2 + 3 * V / c"
    using Cons.IH unfolding N_def V_def m_def c_def .
  show ?case
  proof (cases "entry_value e > 0")
    case True
    define n where "n = hundredths tot (entry_value e)"
    define x where "x = entry_value e / tot * 10000"
    have x0: "0 \<le> x" using True assms by (simp add: x_def)
    have e: "\<bar>of_int n - x\<bar> \<le> 1 / 2 + 3 * x / c"
      using hundredths_error [of tot "entry_value e"] x0 unfolding n_def x_def c_def by simp
    have 1: "of_int (sum_list (map (\<lambda>e. hundredths tot (entry_value e))
                 (filter (\<lambda>e. entry_value e > 0) (e # es)))) = (of_int n + of_int N :: rat)"
      using True by (simp add: n_def N_def)
    have 2: "sum_list (map entry_value (filter (\<lambda>e. entry_value e > 0) (e # es))) / tot * 10000
        = x + V"
      using True by (simp add: x_def V_def add_divide_distrib distrib_right)
    have 3: "(of_nat (length (filter (\<lambda>e. entry_value e > 0) (e # es))) :: rat) = 1 + of_nat m"
      using True by (simp add: m_def)
    have 4: "3 * (x + V) / c = 3 * x / c + 3 * V / c"
      by (simp add: distrib_left add_divide_distrib)
    have "\<bar>(of_int n + of_int N) - (x + V)\<bar> \<le> (1 + of_nat m) / 2 + (3 * x / c + 3 * V / c)"
      using e IH by (simp add: add_divide_distrib; linarith)
    then show ?thesis unfolding 1 2 3 c_def [symmetric] 4 .
  next
    case False
    with Cons.IH show ?thesis by simp
  qed
qed

lemma sum_positive_part:
  "\<forall>e \<in> set es. entry_value e \<ge> 0 \<Longrightarrow>
     sum_list (map entry_value (filter (\<lambda>e. entry_value e > 0) es)) = sum_list (map entry_value es)"
proof (induction es)
  case Nil
  show ?case by simp
next
  case (Cons e es)
  then show ?case by (cases "entry_value e > 0") auto
qed

lemma near_integer_bound:
  fixes N :: int and m :: nat
  assumes "\<bar>of_int N - (10000 :: rat)\<bar> \<le> of_nat m / 2 + 3 * 10000 / 2 ^ 53"
  shows "\<bar>of_int N / 100 - (100 :: rat)\<bar> \<le> 5 / 1000 * of_nat m"
proof -
  have "(3 * 10000 / 2 ^ 53 :: rat) < 1 / 2" by simp
  with assms have r: "\<bar>of_int N - (10000 :: rat)\<bar> < of_nat m / 2 + 1 / 2" by linarith
  have "(of_int \<bar>2 * N - 20000\<bar> :: rat) = \<bar>2 * of_int N - 20000\<bar>" by simp
  also have "\<dots> = \<bar>2 * (of_int N - (10000 :: rat))\<bar>" by (simp add: algebra_simps)
  also have "\<dots> = 2 * \<bar>of_int N - 10000\<bar>" by (simp only: abs_mult abs_numeral)
  finally have eq: "(of_int \<bar>2 * N - 20000\<bar> :: rat) = 2 * \<bar>of_int N - 10000\<bar>" .
  from r have "(of_int \<bar>2 * N - 20000\<bar> :: rat) < of_int (int m + 1)"
    unfolding eq by simp
  then have "\<bar>2 * N - 20000\<bar> < int m + 1" by (simp only: of_int_less_iff)
  then have "\<bar>2 * N - 20000\<bar> \<le> int m" by linarith
  then have "(of_int \<bar>2 * N - 20000\<bar> :: rat) \<le> of_int (int m)" by (simp only: of_int_le_iff)
  then have h: "2 * \<bar>of_int N - (10000 :: rat)\<bar> \<le> of_nat m" unfolding eq by simp
  have "(100 :: rat) = 10000 / 100" by simp
  then have "\<bar>of_int N / 100 - (100 :: rat)\<bar> = \<bar>of_int N / 100 - 10000 / 100\<bar>"
    by (simp only:)
  also have "\<dots> = \<bar>(of_int N - 10000) / 100\<bar>"
    by (simp only: diff_divide_distrib)
  also have "\<dots> = \<bar>of_int N - 10000\<bar> / 100"
    by (simp add: abs_divide)
  also have "\<dots> \<le> 5 / 1000 * of_nat m" using h by linarith
  finally show ?thesis .
qed

lemma sum_list_js_sort: "sum_list (map f (js_sort cmp xs)) = sum_list (map f xs)" for f :: "'a \<Rightarrow> rat"
proof -
  have "sum_list (map f (js_sort cmp xs)) = sum_mset (image_mset f (mset (js_sort cmp xs)))"
    by (metis mset_map sum_mset_sum_list)
  also have "\<dots> = sum_mset (image_mset f (mset xs))" by (simp add: mset_js_sort)
  also have "\<dots> = sum_list (map f xs)" by (metis mset_map sum_mset_sum_list)
  finally show ?thesis .
qed

lemma length_js_sort: "length (js_sort cmp xs) = length xs"
  by (metis mset_js_sort size_mset)

lemma example_total:
  "allocation_total (Object_values (allocationMap example_allocation example_manual)) = 32"
  by (simp add: example_allocationMap Object_values_def allocation_total_def)

lemma zero_allocationMap:
  "allocationMap zero_allocation zero_manual =
     [(''equity'', \<lparr>entry_asset_class = ''Equity'', entry_value = 0, entry_scheme_count = 2\<rparr>),
      (''cash'', \<lparr>entry_asset_class = ''Cash'', entry_value = 0, entry_scheme_count = 1\<rparr>)]"
  by (simp add: allocationMap_def zero_allocation_def zero_manual_def add_backend_def
      add_manual_def manual_holding_def stmt_holding_def toLowerCase_def toLowerCase_char_def
      toUpperCase_char_def manual_label_def obj_get_def or0_def or0n_def)

lemma zero_total:
  "allocation_total (Object_values (allocationMap zero_allocation zero_manual)) = 0"
  by (simp add: zero_allocationMap Object_values_def allocation_total_def)

lemma zero_result: "getCombinedAssetAllocation zero_allocation zero_manual = Inr []"
  by (simp add: getCombinedAssetAllocation_Inr zero_allocationMap Object_values_def
      allocation_total_def js_sort_def row_of_def)

lemma zero_rows:
  "map_result (with_percentage 0) (Object_values (allocationMap zero_allocation zero_manual)) =
     Inr [\<lparr>entry_asset_class = ''Equity'', entry_value = 0, entry_scheme_count = 2, percentage = 0\<rparr>,
          \<lparr>entry_asset_class = ''Cash'', entry_value = 0, entry_scheme_count = 1, percentage = 0\<rparr>]"
  by (simp add: zero_allocationMap Object_values_def with_percentage_Inr row_of_def)






text \<open>
  Claim C3. When the total value of the combined allocation is 0 (no holdings, or only
  holdings of value 0), the percentage stage succeeds and gives every group the
  percentage 0, and so does the returned table. The division is evaluated only on the
  branch \<^verbatim>\<open>total > 0\<close>: on the zero-total branch the percentage is 0 without any
  division, and for no input does getCombinedAssetAllocation end in the error of a
  division by zero.
\<close>

theorem zero_total_percentages:
  "(allocation_total (Object_values (allocationMap aa mh)) = 0 \<longrightarrow>
      (\<exists>rows rs.
         map_result (with_percentage 0) (Object_values (allocationMap aa mh)) = Inr rows
         \<and> length rows = length (Object_values (allocationMap aa mh))
         \<and> (\<forall>r \<in> set rows. percentage r = 0)
         \<and> getCombinedAssetAllocation aa mh = Inr rs
         \<and> (\<forall>r \<in> set rs. percentage r = 0)))
   \<and> (\<forall>err. getCombinedAssetAllocation aa mh \<noteq> Inl err)
   \<and> (\<forall>v. percentage_of 0 v = Inr 0)"
proof (intro conjI impI)
  let ?es = "Object_values (allocationMap aa mh)"
  assume z: "allocation_total ?es = 0"
  have 1: "map_result (with_percentage 0) ?es = Inr (map (row_of 0) ?es)"
    by (rule map_result_Inr) (rule with_percentage_Inr)
  have 2: "\<forall>r \<in> set (map (row_of 0) ?es). percentage r = 0"
    by (simp add: percentage_row_of_nonpos)
  let ?rs = "js_sort by_value_desc (filter (\<lambda>item. entry_value item > 0) (map (row_of 0) ?es))"
  have 3: "getCombinedAssetAllocation aa mh = Inr ?rs"
    using z by (simp add: getCombinedAssetAllocation_Inr)
  have 4: "\<forall>r \<in> set ?rs. percentage r = 0"
    by (auto simp add: set_js_sort percentage_row_of_nonpos)
  from 1 2 3 4 show "\<exists>rows rs.
         map_result (with_percentage 0) ?es = Inr rows
         \<and> length rows = length ?es
         \<and> (\<forall>r \<in> set rows. percentage r = 0)
         \<and> getCombinedAssetAllocation aa mh = Inr rs
         \<and> (\<forall>r \<in> set rs. percentage r = 0)"
    by (intro exI [of _ "map (row_of 0) ?es"] exI [of _ ?rs]) simp
next
  show "\<forall>err. getCombinedAssetAllocation aa mh \<noteq> Inl err"
    by (simp add: getCombinedAssetAllocation_Inr)
next
  show "\<forall>v. percentage_of 0 v = Inr 0"
    by (simp add: percentage_of_Inr)
qed

theorem zero_total_percentages_witness:
  "allocation_total (Object_values (allocationMap zero_allocation zero_manual)) = 0
   \<and> map_result (with_percentage 0) (Object_values (allocationMap zero_allocation zero_manual)) =
     Inr [\<lparr>entry_asset_class = ''Equity'', entry_value = 0, entry_scheme_count = 2, percentage = 0\<rparr>,
          \<lparr>entry_asset_class = ''Cash'', entry_value = 0, entry_scheme_count = 1, percentage = 0\<rparr>]
   \<and> getCombinedAssetAllocation zero_allocation zero_manual = Inr []
   \<and> (\<forall>err. getCombinedAssetAllocation zero_allocation zero_manual \<noteq> Inl err)"
  using zero_total_percentages [of zero_allocation zero_manual]
  by (simp add: zero_total zero_rows zero_result)



lemma short_allocationMap:
  "allocationMap short_allocation [] =
     [(''equity'', \<lparr>entry_asset_class = ''Equity'', entry_value = 200, entry_scheme_count = 1\<rparr>),
      (''margin'', \<lparr>entry_asset_class = ''Margin'', entry_value = - 100, entry_scheme_count = 1\<rparr>)]"
  by (simp add: allocationMap_def short_allocation_def add_backend_def
      toLowerCase_def toLowerCase_char_def or0_def or0n_def)

lemma short_result:
  "getCombinedAssetAllocation short_allocation [] =
     Inr [\<lparr>entry_asset_class = ''Equity'', entry_value = 200, entry_scheme_count = 1,
            percentage = 200\<rparr>]"
  by (simp add: getCombinedAssetAllocation_Inr short_allocationMap Object_values_def
      allocation_total_def row_of_def rounded_examples js_sort_def by_value_desc_def)

text \<open>
  Claim C5 as stated fails when a group has a negative value. With one group worth 200
  and one worth -100 the total is 100, the negative group is left out of the table and
  the only percentage returned is 200.
\<close>

theorem sum_to_100_counterexample:
  "getCombinedAssetAllocation short_allocation [] =
     Inr [\<lparr>entry_asset_class = ''Equity'', entry_value = 200, entry_scheme_count = 1,
            percentage = 200\<rparr>]
   \<and> allocation_total (Object_values (allocationMap short_allocation [])) = 100
   \<and> \<not> \<bar>sum_list (map percentage
            [\<lparr>entry_asset_class = ''Equity'', entry_value = 200, entry_scheme_count = 1,
              percentage = 200\<rparr>]) - 100\<bar>
        \<le> 5 / 1000 * of_nat (length
            [\<lparr>entry_asset_class = ''Equity'', entry_value = 200, entry_scheme_count = 1,
              percentage = (200 :: rat)\<rparr>])"
  by (simp add: short_result short_allocationMap Object_values_def allocation_total_def)

text \<open>
  Claim C5, as amended. When the total value is positive \<^emph>\<open>and no group has a negative
  value\<close>, the percentages of the returned table sum to 100 within 0.005 times the
  number of returned groups; when the total value is 0, every returned percentage is 0.
\<close>

theorem percentages_sum_near_100:
  assumes "tot = allocation_total (Object_values (allocationMap aa mh))"
  shows "(tot > 0 \<and> (\<forall>e \<in> set (Object_values (allocationMap aa mh)). entry_value e \<ge> 0) \<longrightarrow>
           (\<exists>rs. getCombinedAssetAllocation aa mh = Inr rs
              \<and> \<bar>sum_list (map percentage rs) - 100\<bar> \<le> 5 / 1000 * of_nat (length rs)))
       \<and> (tot = 0 \<longrightarrow>
           (\<exists>rs. getCombinedAssetAllocation aa mh = Inr rs \<and> (\<forall>r \<in> set rs. percentage r = 0)))"
proof (intro conjI impI)
  let ?es = "Object_values (allocationMap aa mh)"
  let ?rows = "filter (\<lambda>item. entry_value item > 0) (map (row_of tot) ?es)"
  let ?rs = "js_sort by_value_desc ?rows"
  have res: "getCombinedAssetAllocation aa mh = Inr ?rs"
    by (simp add: getCombinedAssetAllocation_Inr assms)
  {
    assume h: "tot > 0 \<and> (\<forall>e \<in> set ?es. entry_value e \<ge> 0)"
    then have pos: "tot > 0" and nonneg: "\<forall>e \<in> set ?es. entry_value e \<ge> 0" by simp_all
    define N where "N = sum_list (map (\<lambda>e. hundredths tot (entry_value e))
                      (filter (\<lambda>e. entry_value e > 0) ?es))"
    define m where "m = length (filter (\<lambda>e. entry_value e > 0) ?es)"
    have "sum_list (map entry_value (filter (\<lambda>e. entry_value e > 0) ?es)) = tot"
      using sum_positive_part [OF nonneg] by (simp add: assms allocation_total_sum_list)
    then have V: "sum_list (map entry_value (filter (\<lambda>e. entry_value e > 0) ?es)) / tot * 10000
        = 10000"
      using pos by simp
    have "\<bar>of_int N - (10000 :: rat)\<bar> \<le> of_nat m / 2 + 3 * 10000 / 2 ^ 53"
      using positive_rows_error [OF pos, of ?es] unfolding V N_def m_def .
    then have b: "\<bar>of_int N / 100 - (100 :: rat)\<bar> \<le> 5 / 1000 * of_nat m"
      by (rule near_integer_bound)
    have s: "sum_list (map percentage ?rows) = of_int N / 100"
      unfolding N_def by (rule positive_rows_percentages [OF pos])
    have l: "length ?rows = m"
      unfolding m_def by (rule length_positive_rows)
    have "\<bar>sum_list (map percentage ?rows) - 100\<bar> \<le> 5 / 1000 * of_nat (length ?rows)"
      unfolding s l by (rule b)
    then have "\<bar>sum_list (map percentage ?rs) - 100\<bar> \<le> 5 / 1000 * of_nat (length ?rs)"
      by (simp only: sum_list_js_sort length_js_sort)
    with res show "\<exists>rs. getCombinedAssetAllocation aa mh = Inr rs
              \<and> \<bar>sum_list (map percentage rs) - 100\<bar> \<le> 5 / 1000 * of_nat (length rs)"
      by blast
  }
  {
    assume z: "tot = 0"
    have "\<forall>r \<in> set ?rs. percentage r = 0"
      using z by (auto simp add: set_js_sort percentage_row_of_nonpos)
    with res show "\<exists>rs. getCombinedAssetAllocation aa mh = Inr rs \<and> (\<forall>r \<in> set rs. percentage r = 0)"
      by blast
  }
qed

theorem percentages_sum_near_100_witness:
  "((32 :: rat) = allocation_total (Object_values (allocationMap example_allocation example_manual))
    \<and> (0 :: rat) < 32
    \<and> map entry_value (Object_values (allocationMap example_allocation example_manual)) = [31, 0, 1]
    \<and> (\<exists>rs. getCombinedAssetAllocation example_allocation example_manual = Inr rs
          \<and> \<bar>sum_list (map percentage rs) - 100\<bar> \<le> 5 / 1000 * of_nat (length rs)))
   \<and> ((0 :: rat) = allocation_total (Object_values (allocationMap zero_allocation zero_manual))
    \<and> (\<exists>rs. getCombinedAssetAllocation zero_allocation zero_manual = Inr rs
          \<and> (\<forall>r \<in> set rs. percentage r = 0)))"
proof -
  have t: "(32 :: rat) = allocation_total (Object_values (allocationMap example_allocation example_manual))"
    by (simp add: example_total)
  have n: "\<forall>e \<in> set (Object_values (allocationMap example_allocation example_manual)). entry_value e \<ge> 0"
    by (simp add: example_allocationMap Object_values_def)
  have z: "(0 :: rat) = allocation_total (Object_values (allocationMap zero_allocation zero_manual))"
    by (simp add: zero_total)
  have v: "map entry_value (Object_values (allocationMap example_allocation example_manual)) = [31, 0, 1]"
    by (simp add: example_allocationMap Object_values_def)
  from t n v z percentages_sum_near_100 [OF t] percentages_sum_near_100 [OF z]
  show ?thesis by simp
qed

subsection \<open>OverviewTab: ordering\<close>

text \<open>
  Claim C9. The holdings sequence of the overview is in non-increasing order of
  current_value, a missing current_value counting as 0; it is a permutation of the
  holdings it was given (no holding added or dropped); and the Top 5 list is exactly the
  first five elements of that sequence (all of them when there are fewer than five).
\<close>

theorem overview_sorted_top5:
  "sorted_wrt (\<lambda>a b. or0 (current_value a) \<ge> or0 (current_value b)) (Overview_allHoldings hs)
   \<and> mset (Overview_allHoldings hs) = mset hs
   \<and> top5 hs = take 5 (Overview_allHoldings hs)
   \<and> length (top5 hs) = min 5 (length hs)
   \<and> (\<forall>i < length (top5 hs). top5 hs ! i = Overview_allHoldings hs ! i)"
proof (intro conjI)
  show "sorted_wrt (\<lambda>a b. or0 (current_value a) \<ge> or0 (current_value b)) (Overview_allHoldings hs)"
    unfolding Overview_allHoldings_def
    by (rule sorted_js_sort) (simp add: by_current_value_desc_def)
  show "mset (Overview_allHoldings hs) = mset hs"
    by (simp add: Overview_allHoldings_def mset_js_sort)
  show "top5 hs = take 5 (Overview_allHoldings hs)"
    by (simp add: top5_def)
  show "length (top5 hs) = min 5 (length hs)"
    by (simp add: top5_def Overview_allHoldings_def length_js_sort min.commute)
  show "\<forall>i < length (top5 hs). top5 hs ! i = Overview_allHoldings hs ! i"
    by (simp add: top5_def)
qed

lemma sample_sorted:
  "Overview_allHoldings sample_holdings =
     [stmt_holding ''F'' ''gold'' (Some 40),
      manual_holding ''C'' ''crypto'' (Some 30),
      stmt_holding ''D'' ''mutual_funds'' (Some 20),
      stmt_holding ''A'' ''equity'' (Some 10),
      stmt_holding ''E'' ''debt'' (Some 5),
      stmt_holding ''B'' ''other'' None]"
  by (simp add: Overview_allHoldings_def sample_holdings_def js_sort_def by_current_value_desc_def
      stmt_holding_def manual_holding_def or0_def)

theorem overview_sorted_top5_witness:
  "Overview_allHoldings sample_holdings =
     [stmt_holding ''F'' ''gold'' (Some 40),
      manual_holding ''C'' ''crypto'' (Some 30),
      stmt_holding ''D'' ''mutual_funds'' (Some 20),
      stmt_holding ''A'' ''equity'' (Some 10),
      stmt_holding ''E'' ''debt'' (Some 5),
      stmt_holding ''B'' ''other'' None]
   \<and> top5 sample_holdings =
     [stmt_holding ''F'' ''gold'' (Some 40),
      manual_holding ''C'' ''crypto'' (Some 30),
      stmt_holding ''D'' ''mutual_funds'' (Some 20),
      stmt_holding ''A'' ''equity'' (Some 10),
      stmt_holding ''E'' ''debt'' (Some 5)]
   \<and> mset (Overview_allHoldings sample_holdings) = mset sample_holdings"
proof -
  have t: "top5 sample_holdings =
     [stmt_holding ''F'' ''gold'' (Some 40),
      manual_holding ''C'' ''crypto'' (Some 30),
      stmt_holding ''D'' ''mutual_funds'' (Some 20),
      stmt_holding ''A'' ''equity'' (Some 10),
      stmt_holding ''E'' ''debt'' (Some 5)]"
    by (simp add: top5_def sample_sorted)
  from overview_sorted_top5 [of sample_holdings]
  have m: "mset (Overview_allHoldings sample_holdings) = mset sample_holdings"
    by blast
  from sample_sorted t m show ?thesis by (intro conjI)
qed

subsection \<open>HoldingsTab: asset classes\<close>








subsection \<open>Manual entries\<close>

text \<open>
  Claim C8. A manual entry submitted with an empty broker field is sent with
  \<^verbatim>\<open>amc = "Manual"\<close>, and one with a non-empty broker field with that value; the holdings
  display shows "Manual" for a holding whose amc is absent or empty, and the amc itself
  when it is non-empty.
\<close>

theorem amc_defaults_to_Manual:
  "(\<exists>h'. handleSubmit parseFloat today False fd = Some h'
        \<and> amc h' = Some (if fd_amc fd = [] then ''Manual'' else fd_amc fd))
   \<and> ((amc h = None \<or> amc h = Some []) \<longrightarrow> amc_label h = ''Manual'')
   \<and> (\<forall>s. amc h = Some s \<and> s \<noteq> [] \<longrightarrow> amc_label h = s)"
  by (auto simp add: handleSubmit_def Let_def or_str_def amc_label_def)

theorem amc_defaults_to_Manual_witness:
  "(\<exists>h'. handleSubmit parse_example ''2026-01-01'' False bitcoin_form = Some h'
        \<and> amc h' = Some ''Manual'')
   \<and> amc (stmt_holding ''A'' ''equity'' (Some 10)) = None
   \<and> amc_label (stmt_holding ''A'' ''equity'' (Some 10)) = ''Manual''
   \<and> amc hdfc = Some ''Zerodha'' \<and> amc_label hdfc = ''Zerodha''"
  using amc_defaults_to_Manual [of parse_example "''2026-01-01''" bitcoin_form "stmt_holding ''A'' ''equity'' (Some 10)"]
    amc_defaults_to_Manual [of parse_example "''2026-01-01''" bitcoin_form hdfc]
  by (simp add: bitcoin_form_def stmt_holding_def hdfc_def)

text \<open>
  Claim C4. A manual entry submitted with units \<open>u\<close>, purchase price \<open>p\<close> and current
  price \<open>c\<close>, all non-negative, is sent with current_value \<open>u \<times> c\<close>, invested_amount
  \<open>u \<times> p\<close>, absolute_return \<open>u \<times> c - u \<times> p\<close> and percentage_return
  absolute_return / invested_amount \<open>\<times>\<close> 100 when invested_amount is positive and 0
  otherwise; for \<open>u = 0.5\<close>, \<open>p = 30000\<close>, \<open>c = 60000\<close> these are 30000, 15000 and 100.
\<close>

theorem manual_entry_returns:
  assumes "parseFloat (fd_units fd) = Some u"
    and "parseFloat (fd_purchase_nav fd) = Some p"
    and "parseFloat (fd_current_nav fd) = Some c"
    and "0 \<le> u" and "0 \<le> p" and "0 \<le> c"
  shows "\<exists>h. handleSubmit parseFloat today False fd = Some h
      \<and> units h = u \<and> nav h = c
      \<and> current_value h = Some (u * c)
      \<and> invested_amount h = u * p
      \<and> absolute_return h = u * c - u * p
      \<and> percentage_return h =
          Some (if invested_amount h > 0 then absolute_return h / invested_amount h * 100 else 0)
      \<and> (u = 1 / 2 \<and> p = 30000 \<and> c = 60000 \<longrightarrow>
           current_value h = Some 30000 \<and> absolute_return h = 15000
           \<and> percentage_return h = Some 100)"
  using assms by (simp add: handleSubmit_def Let_def or0_def)

theorem manual_entry_returns_witness:
  "parse_example (fd_units bitcoin_form) = Some (1 / 2)
   \<and> parse_example (fd_purchase_nav bitcoin_form) = Some 30000
   \<and> parse_example (fd_current_nav bitcoin_form) = Some 60000
   \<and> (\<exists>h. handleSubmit parse_example ''2026-01-01'' False bitcoin_form = Some h
      \<and> current_value h = Some 30000 \<and> invested_amount h = 15000
      \<and> absolute_return h = 15000 \<and> percentage_return h = Some 100)"
proof -
  have u: "parse_example (fd_units bitcoin_form) = Some (1 / 2)"
    and p: "parse_example (fd_purchase_nav bitcoin_form) = Some 30000"
    and c: "parse_example (fd_current_nav bitcoin_form) = Some 60000"
    by (simp_all add: parse_example_def bitcoin_form_def)
  from manual_entry_returns [OF u p c, of "''2026-01-01''"]
  obtain h where "handleSubmit parse_example ''2026-01-01'' False bitcoin_form = Some h"
    and "current_value h = Some 30000" and "invested_amount h = 15000"
    and "absolute_return h = 15000" and "percentage_return h = Some 100"
    by auto
  with u p c show ?thesis by blast
qed

subsection \<open>Dashboard totals\<close>

lemma manualTotalValue_sum_list:
  "manualTotalValue hs = sum_list (map (\<lambda>h. or0 (current_value h)) (manualHoldings hs))"
  by (simp add: manualTotalValue_def foldl_add_sum_list)

lemma sum_list_split:
  "sum_list (map f hs) = sum_list (map f (filter P hs)) + sum_list (map f (filter (\<lambda>h. \<not> P h) hs))"
  for f :: "'a \<Rightarrow> rat"
  by (induction hs) simp_all

lemma length_split:
  "length hs = length (filter P hs) + length (filter (\<lambda>h. \<not> P h) hs)"
  by (induction hs) simp_all

text \<open>
  Claim C1 as stated fails. When the summary is the one the specification defines, the sum
  and the count over all holdings, the manual holdings included, the Dashboard adds the
  manual holdings a second time: for a statement holding worth 81037.50 and a manual
  holding worth 30000 it displays 141037.50 and 3 schemes, where the sum is 111037.50 and
  there are 2 holdings.
\<close>

theorem dashboard_counts_manual_twice:
  "data_summary (portfolio_view [hdfc, bitcoin] []) =
     \<lparr>total_value = Some (111037 + 1 / 2), scheme_count = Some 2, folio_count = Some 1\<rparr>
   \<and> totalPortfolioValue (portfolio_view [hdfc, bitcoin] []) = 141037 + 1 / 2
   \<and> sum_list (map (\<lambda>h. or0 (current_value h)) [hdfc, bitcoin]) = 111037 + 1 / 2
   \<and> totalSchemeCount (portfolio_view [hdfc, bitcoin] []) = 3
   \<and> length [hdfc, bitcoin] = 2"
  by (simp add: totalPortfolioValue_def totalSchemeCount_def portfolio_view_def
      spec_summary_def holdings_of_def manualTotalValue_sum_list manualHoldings_def
      hdfc_def bitcoin_def or0_def or0n_def)

text \<open>
  Claim C1, as amended. The displayed total is \<^verbatim>\<open>summary.total_value\<close> (0 when absent) plus
  the sum of current_value over the holdings marked \<^verbatim>\<open>source: "manual"\<close>, and the displayed
  scheme count is \<^verbatim>\<open>summary.scheme_count\<close> plus the number of those holdings. The total is
  the sum of current_value over all holdings exactly when the summary's total is the sum
  over the holdings that are not manual, and the count is the number of holdings exactly
  when the summary's count is the number of holdings that are not manual: the Dashboard
  expects a summary of the statement holdings alone, and then no holding is counted twice.
\<close>

theorem dashboard_totals:
  "totalPortfolioValue d
     = or0 (total_value (data_summary d))
       + sum_list (map (\<lambda>h. or0 (current_value h)) (manualHoldings (holdings_of d)))
   \<and> totalSchemeCount d
     = or0n (scheme_count (data_summary d)) + length (manualHoldings (holdings_of d))
   \<and> (totalPortfolioValue d = sum_list (map (\<lambda>h. or0 (current_value h)) (holdings_of d))
        \<longleftrightarrow> or0 (total_value (data_summary d))
            = sum_list (map (\<lambda>h. or0 (current_value h))
                (filter (\<lambda>h. source h \<noteq> Some ''manual'') (holdings_of d))))
   \<and> (totalSchemeCount d = length (holdings_of d)
        \<longleftrightarrow> or0n (scheme_count (data_summary d))
            = length (filter (\<lambda>h. source h \<noteq> Some ''manual'') (holdings_of d)))"
proof -
  let ?hs = "holdings_of d"
  let ?cv = "\<lambda>h. or0 (current_value h)"
  have t: "totalPortfolioValue d
      = or0 (total_value (data_summary d)) + sum_list (map ?cv (manualHoldings ?hs))"
    by (simp add: totalPortfolioValue_def manualTotalValue_sum_list)
  have c: "totalSchemeCount d
      = or0n (scheme_count (data_summary d)) + length (manualHoldings ?hs)"
    by (simp add: totalSchemeCount_def)
  have s: "sum_list (map ?cv ?hs)
      = sum_list (map ?cv (manualHoldings ?hs))
        + sum_list (map ?cv (filter (\<lambda>h. source h \<noteq> Some ''manual'') ?hs))"
    unfolding manualHoldings_def by (rule sum_list_split)
  have l: "length ?hs
      = length (manualHoldings ?hs) + length (filter (\<lambda>h. source h \<noteq> Some ''manual'') ?hs)"
    unfolding manualHoldings_def by (rule length_split)
  have 3: "totalPortfolioValue d = sum_list (map ?cv ?hs)
        \<longleftrightarrow> or0 (total_value (data_summary d))
            = sum_list (map ?cv (filter (\<lambda>h. source h \<noteq> Some ''manual'') ?hs))"
    unfolding t s by linarith
  have 4: "totalSchemeCount d = length ?hs
        \<longleftrightarrow> or0n (scheme_count (data_summary d))
            = length (filter (\<lambda>h. source h \<noteq> Some ''manual'') ?hs)"
    unfolding c l by linarith
  from t c 3 4 show ?thesis by (intro conjI)
qed

theorem dashboard_totals_witness:
  "or0 (total_value (data_summary statement_only_view)) = 81037 + 1 / 2
   \<and> sum_list (map (\<lambda>h. or0 (current_value h))
        (filter (\<lambda>h. source h \<noteq> Some ''manual'') (holdings_of statement_only_view)))
      = 81037 + 1 / 2
   \<and> sum_list (map (\<lambda>h. or0 (current_value h)) (holdings_of statement_only_view))
      = 111037 + 1 / 2
   \<and> totalPortfolioValue statement_only_view = 111037 + 1 / 2
   \<and> length (holdings_of statement_only_view) = 2
   \<and> totalSchemeCount statement_only_view = 2"
  using dashboard_totals [of statement_only_view]
  by (simp add: statement_only_view_def holdings_of_def manualHoldings_def hdfc_def bitcoin_def
      or0_def or0n_def)

subsection \<open>Upload idempotence\<close>

lemma ingest_known:
  "has_source P (fp raw) \<Longrightarrow> ingest fp nz t raw P = DuplicateUpload P"
  by (simp add: ingest_def Let_def)

lemma has_source_after_upload:
  "nz raw = Some r \<Longrightarrow> has_source (upload fp nz t raw P) (fp raw)"
  by (cases r) (simp add: upload_def ingest_def has_source_def Let_def)

lemma upload_known: "has_source P (fp raw) \<Longrightarrow> upload fp nz t raw P = P"
  by (simp add: upload_def ingest_known)

lemma upload_unparseable: "nz raw = None \<Longrightarrow> upload fp nz t raw P = P"
  by (simp add: upload_def ingest_def Let_def)

lemma upload_twice: "upload fp nz t2 raw (upload fp nz t1 raw P) = upload fp nz t1 raw P"
proof (cases "nz raw")
  case None
  then show ?thesis by (simp add: upload_unparseable)
next
  case (Some r)
  then have "has_source (upload fp nz t1 raw P) (fp raw)" by (rule has_source_after_upload)
  then show ?thesis by (rule upload_known)
qed

lemma upload_keeps_distinct:
  "distinct (map source_id (sources P)) \<Longrightarrow>
     distinct (map source_id (sources (upload fp nz t raw P)))"
  by (auto simp add: upload_def ingest_def has_source_def Let_def split: option.splits)

text \<open>
  Claim C6. Uploading the same byte string twice leaves the portfolio that uploading it
  once leaves. When a StatementSource with the fingerprint of the upload exists, the
  ingest reports a duplicate and returns the portfolio unchanged; after a first upload
  that was accepted such a source exists. The second upload adds no StatementSource and
  no holding, and source ids that were distinct stay distinct.
\<close>

theorem upload_idempotent:
  "upload fp nz t2 raw (upload fp nz t1 raw P) = upload fp nz t1 raw P
   \<and> (has_source P (fp raw) \<longrightarrow>
        ingest fp nz t2 raw P = DuplicateUpload P \<and> upload fp nz t2 raw P = P)
   \<and> has_source (upload fp nz t1 raw P) (fp raw) = (has_source P (fp raw) \<or> nz raw \<noteq> None)
   \<and> length (sources (upload fp nz t2 raw (upload fp nz t1 raw P)))
       = length (sources (upload fp nz t1 raw P))
   \<and> statement_holdings (upload fp nz t2 raw (upload fp nz t1 raw P))
       = statement_holdings (upload fp nz t1 raw P)
   \<and> (distinct (map source_id (sources P)) \<longrightarrow>
        distinct (map source_id (sources (upload fp nz t2 raw (upload fp nz t1 raw P)))))"
proof (intro conjI impI)
  show "upload fp nz t2 raw (upload fp nz t1 raw P) = upload fp nz t1 raw P"
    by (rule upload_twice)
  show "ingest fp nz t2 raw P = DuplicateUpload P" if "has_source P (fp raw)"
    using that by (rule ingest_known)
  show "upload fp nz t2 raw P = P" if "has_source P (fp raw)"
    using that by (rule upload_known)
  show "has_source (upload fp nz t1 raw P) (fp raw) = (has_source P (fp raw) \<or> nz raw \<noteq> None)"
    by (auto simp add: upload_def ingest_def has_source_def Let_def split: option.splits)
  show "length (sources (upload fp nz t2 raw (upload fp nz t1 raw P)))
       = length (sources (upload fp nz t1 raw P))"
    by (simp only: upload_twice)
  show "statement_holdings (upload fp nz t2 raw (upload fp nz t1 raw P))
       = statement_holdings (upload fp nz t1 raw P)"
    by (simp only: upload_twice)
  show "distinct (map source_id (sources (upload fp nz t2 raw (upload fp nz t1 raw P))))"
    if "distinct (map source_id (sources P))"
    using that by (simp only: upload_twice upload_keeps_distinct)
qed

lemma example_upload:
  "upload example_fingerprint example_normalizer 10 ''pdf'' empty_portfolio =
     \<lparr>sources = [\<lparr>source_id = ''sha:pdf'', format = nsdl_cas, uploaded_at = 10,
                   src_holdings = [hdfc]\<rparr>],
      manual_holdings = []\<rparr>"
  by (simp add: upload_def ingest_def has_source_def example_fingerprint_def
      example_normalizer_def empty_portfolio_def Let_def)

theorem upload_idempotent_witness:
  "upload example_fingerprint example_normalizer 20 ''pdf''
     (upload example_fingerprint example_normalizer 10 ''pdf'' empty_portfolio)
   = \<lparr>sources = [\<lparr>source_id = ''sha:pdf'', format = nsdl_cas, uploaded_at = 10,
                   src_holdings = [hdfc]\<rparr>],
      manual_holdings = []\<rparr>
   \<and> has_source (upload example_fingerprint example_normalizer 10 ''pdf'' empty_portfolio)
       (example_fingerprint ''pdf'')
   \<and> ingest example_fingerprint example_normalizer 20 ''pdf''
       (upload example_fingerprint example_normalizer 10 ''pdf'' empty_portfolio)
     = DuplicateUpload (upload example_fingerprint example_normalizer 10 ''pdf'' empty_portfolio)
   \<and> distinct (map source_id (sources empty_portfolio))
   \<and> distinct (map source_id (sources (upload example_fingerprint example_normalizer 20 ''pdf''
       (upload example_fingerprint example_normalizer 10 ''pdf'' empty_portfolio))))"
proof -
  let ?P1 = "upload example_fingerprint example_normalizer 10 ''pdf'' empty_portfolio"
  have h: "has_source ?P1 (example_fingerprint ''pdf'')"
    by (simp add: example_upload has_source_def example_fingerprint_def)
  have d: "distinct (map source_id (sources empty_portfolio))"
    by (simp add: empty_portfolio_def)
  from upload_idempotent [of example_fingerprint example_normalizer 20 "''pdf''" 10 empty_portfolio]
  have 1: "upload example_fingerprint example_normalizer 20 ''pdf'' ?P1 = ?P1"
    and 2: "distinct (map source_id (sources empty_portfolio)) \<longrightarrow>
        distinct (map source_id (sources (upload example_fingerprint example_normalizer 20 ''pdf'' ?P1)))"
    by blast+
  from upload_idempotent [of example_fingerprint example_normalizer 20 "''pdf''" 10 ?P1] h
  have 3: "ingest example_fingerprint example_normalizer 20 ''pdf'' ?P1 = DuplicateUpload ?P1"
    by blast
  from 1 have e1: "upload example_fingerprint example_normalizer 20 ''pdf'' ?P1 =
     \<lparr>sources = [\<lparr>source_id = ''sha:pdf'', format = nsdl_cas, uploaded_at = 10,
                   src_holdings = [hdfc]\<rparr>],
      manual_holdings = []\<rparr>"
    by (simp only: example_upload)
  from e1 h 3 d 2 show ?thesis by blast
qed

end
